theory Spec2Isabelle
  imports Main "HOL-Library.Word"
begin

section \<open>The earnings calendar page (src/app/page.tsx)\<close>

subsection \<open>JavaScript values\<close>

text \<open>
  A JavaScript string is a sequence of UTF-16 code units. \<open>ascii\<close> writes an ASCII
  literal of the source as such a sequence. The separator of the ticker line is not
  ASCII: a bullet U+2022 between two spaces.
\<close>

type_synonym jsstring = "16 word list"

definition ascii :: "string \<Rightarrow> jsstring" where
  "ascii s = map of_char s"

definition bullet :: jsstring where
  "bullet = [0x20, 0x2022, 0x20]"

text \<open>
  A value of type \<open>string | null | undefined\<close> is a \<open>jsstring option\<close>; \<open>None\<close> stands
  for both \<open>null\<close> and \<open>undefined\<close>, which the page never tells apart. Such a value is
  truthy when it is a non-empty string.
\<close>

definition truthy :: "jsstring option \<Rightarrow> bool" where
  "truthy v = (case v of None \<Rightarrow> False | Some s \<Rightarrow> s \<noteq> [])"

text \<open>\<open>a || b\<close> where \<open>b\<close> is a string.\<close>

definition js_or :: "jsstring option \<Rightarrow> jsstring \<Rightarrow> jsstring" where
  "js_or a b = (case a of None \<Rightarrow> b | Some s \<Rightarrow> if s \<noteq> [] then s else b)"

text \<open>\<open>a ?? b\<close> where \<open>b\<close> is an array.\<close>

definition nullish :: "'a list option \<Rightarrow> 'a list \<Rightarrow> 'a list" where
  "nullish a b = (case a of None \<Rightarrow> b | Some xs \<Rightarrow> xs)"

text \<open>
  \<open>String.prototype.trim\<close> removes the white space and line terminator code units of
  ECMAScript from both ends of a string.
\<close>

definition is_white_space :: "16 word \<Rightarrow> bool" where
  "is_white_space c \<longleftrightarrow>
     c \<in> {0x9, 0xA, 0xB, 0xC, 0xD, 0x20, 0xA0, 0x1680, 0x2028, 0x2029, 0x202F, 0x205F,
          0x3000, 0xFEFF} \<or> (0x2000 \<le> c \<and> c \<le> 0x200A)"

definition trim :: "jsstring \<Rightarrow> jsstring" where
  "trim s = rev (dropWhile is_white_space (rev (dropWhile is_white_space s)))"

text \<open>
  \<open>Array.prototype.join\<close>: an element that is \<open>null\<close> or \<open>undefined\<close> contributes the
  empty string.
\<close>

definition to_str :: "jsstring option \<Rightarrow> jsstring" where
  "to_str v = (case v of None \<Rightarrow> [] | Some s \<Rightarrow> s)"

fun join :: "jsstring option list \<Rightarrow> jsstring \<Rightarrow> jsstring" where
  "join [] sep = []"
| "join [x] sep = to_str x"
| "join (x # y # ys) sep = to_str x @ sep @ join (y # ys) sep"

text \<open>
  \<open>Array.from(new Set(xs))\<close>: the distinct elements of \<open>xs\<close>, each at the place of its
  first occurrence.
\<close>

definition array_from_set :: "'a list \<Rightarrow> 'a list" where
  "array_from_set xs = foldl (\<lambda>s x. if x \<in> set s then s else s @ [x]) [] xs"

text \<open>
  A JavaScript number is a binary64 value, kept here as its 64 bits. The page only carries
  the market capitalization from the company row to the display.
\<close>

type_synonym number = "64 word"

subsection \<open>Row types\<close>

record EarningsRow =
  id' :: int
  isin :: jsstring
  date :: jsstring
  source :: "jsstring option"
  created_at :: jsstring

record CompanyRow =
  isin :: jsstring
  friendly_name :: "jsstring option"
  name :: "jsstring option"
  gics_sector :: "jsstring option"
  gics_industry :: "jsstring option"
  market_cap_millions_usd :: "number option"
  country :: "jsstring option"
  ticker :: "jsstring option"

record ReportRow =
  isin :: jsstring
  storage_url :: "jsstring option"
  generated_at :: "jsstring option"

record CalendarRow = EarningsRow +
  company :: "CompanyRow option"
  report :: "ReportRow option"

subsection \<open>Display helpers\<close>

text \<open>
  The display of the market capitalization is a binary64 product handed to
  \<open>Intl.NumberFormat\<close> of the runtime; neither is part of this model.
\<close>

definition formatCompany :: "CalendarRow \<Rightarrow> jsstring" where
  "formatCompany row =
     (let friendly = Option.bind (company row) friendly_name;
          fallback = Option.bind (company row) name
      in js_or friendly (js_or fallback (EarningsRow.isin row)))"

definition formatTicker :: "CalendarRow \<Rightarrow> jsstring" where
  "formatTicker row =
     (let ticker = map_option trim (Option.bind (company row) CompanyRow.ticker);
          country = Option.bind (company row) CompanyRow.country;
          parts = filter (\<lambda>v. truthy v \<and> v \<noteq> Some [])
                    [ticker, Some (EarningsRow.isin row), country]
      in join parts bullet)"

text \<open>The ticker line as \<open>Home\<close> renders it: \<open>tickerLine || row.isin\<close>.\<close>

definition tickerLine :: "CalendarRow \<Rightarrow> jsstring" where
  "tickerLine row = js_or (Some (formatTicker row)) (EarningsRow.isin row)"

subsection \<open>The database and the effects of a page load\<close>

text \<open>
  A query of the client resolves to \<open>{data, error}\<close>: on failure \<open>error\<close> is an object
  with a message and \<open>data\<close> is \<open>null\<close>; otherwise \<open>error\<close> is \<open>null\<close> and \<open>data\<close> is the
  array of rows (or \<open>null\<close>, which the page reads as no rows).
\<close>

datatype PostgrestError = PostgrestError (message: jsstring)

datatype 'a response = Failure PostgrestError | Success "'a list option"

fun error :: "'a response \<Rightarrow> PostgrestError option" where
  "error (Failure e) = Some e"
| "error (Success d) = None"

fun data :: "'a response \<Rightarrow> 'a list option" where
  "data (Failure e) = None"
| "data (Success d) = d"

text \<open>
  The database answers the three queries of the page: the earnings calendar from a day
  on with a row limit, the companies of a list of identifiers, and the reports of one
  type for a list of identifiers.
\<close>

record database =
  earnings_calendar :: "jsstring \<Rightarrow> nat \<Rightarrow> EarningsRow response"
  company_table :: "jsstring list \<Rightarrow> CompanyRow response"
  reports_table :: "nat \<Rightarrow> jsstring list \<Rightarrow> ReportRow response"

datatype effect =
    SelectEarnings jsstring nat
  | SelectCompany "jsstring list"
  | SelectReports nat "jsstring list"
  | ConsoleError jsstring jsstring

fun is_dependent_lookup :: "effect \<Rightarrow> bool" where
  "is_dependent_lookup (SelectCompany l) = True"
| "is_dependent_lookup (SelectReports t l) = True"
| "is_dependent_lookup _ = False"

subsection \<open>loadUpcomingEarnings\<close>

text \<open>The two keyed maps, built by \<open>reduce\<close> with \<open>map.set\<close>.\<close>

definition companies_map :: "CompanyRow list \<Rightarrow> (jsstring \<rightharpoonup> CompanyRow)" where
  "companies_map rows = foldl (\<lambda>m c. m(CompanyRow.isin c \<mapsto> c)) Map.empty rows"

definition reports_map :: "ReportRow list \<Rightarrow> (jsstring \<rightharpoonup> ReportRow)" where
  "reports_map rows =
     foldl (\<lambda>m r. m(ReportRow.isin r \<mapsto> r)) Map.empty
       (filter (\<lambda>r. truthy (storage_url r)) rows)"

definition attach ::
  "(jsstring \<rightharpoonup> CompanyRow) \<Rightarrow> (jsstring \<rightharpoonup> ReportRow) \<Rightarrow> EarningsRow \<Rightarrow> CalendarRow" where
  "attach companies reports row =
     EarningsRow.extend row
       (CalendarRow.fields (companies (EarningsRow.isin row)) (reports (EarningsRow.isin row)))"

text \<open>The identifiers of the events: \<open>Array.from(new Set(rows.map(isin).filter(Boolean)))\<close>.\<close>

definition collected_isins :: "EarningsRow list \<Rightarrow> jsstring list" where
  "collected_isins earningsRows =
     array_from_set (filter (\<lambda>i. truthy (Some i)) (map EarningsRow.isin earningsRows))"

text \<open>
  The page load returns its rows together with the queries it issued and the messages it
  logged, in the order of the source. \<open>todayIso\<close> is the date part of the clock.
\<close>

definition loadUpcomingEarnings :: "database \<Rightarrow> jsstring \<Rightarrow> CalendarRow list \<times> effect list" where
  "loadUpcomingEarnings db todayIso =
     (let result = earnings_calendar db todayIso 500;
          fx0 = [SelectEarnings todayIso 500]
      in case error result of
           Some e \<Rightarrow>
             ([], fx0 @ [ConsoleError (ascii ''Failed to load earnings calendar'') (message e)])
         | None \<Rightarrow>
             let earningsRows = nullish (data result) []
             in if length earningsRows = 0 then ([], fx0)
                else
                  let isins = collected_isins earningsRows;
                      (companiesResult, fx1) =
                        (if length isins > 0
                         then (company_table db isins, [SelectCompany isins])
                         else (Success (Some []), []));
                      (reportsResult, fx2) =
                        (if length isins > 0
                         then (reports_table db 6 isins, [SelectReports 6 isins])
                         else (Success (Some []), []));
                      fx3 = (case error companiesResult of
                               Some e \<Rightarrow> [ConsoleError
                                 (ascii ''Failed to load company metadata'') (message e)]
                             | None \<Rightarrow> []);
                      fx4 = (case error reportsResult of
                               Some e \<Rightarrow> [ConsoleError
                                 (ascii ''Failed to load report metadata'') (message e)]
                             | None \<Rightarrow> []);
                      companies = companies_map (nullish (data companiesResult) []);
                      reports = reports_map (nullish (data reportsResult) [])
                  in (map (attach companies reports) earningsRows,
                      fx0 @ fx1 @ fx2 @ fx3 @ fx4))"

text \<open>The rows of the primary query as the page reads them: none on failure.\<close>

definition primary_rows :: "database \<Rightarrow> jsstring \<Rightarrow> EarningsRow list" where
  "primary_rows db todayIso = nullish (data (earnings_calendar db todayIso 500)) []"

text \<open>
  The rows a dependent lookup contributes to the merge: the data of its answer when the
  identifier list is not empty, no rows otherwise.
\<close>

definition company_rows :: "database \<Rightarrow> jsstring list \<Rightarrow> CompanyRow list" where
  "company_rows db isins =
     (if length isins > 0 then nullish (data (company_table db isins)) [] else [])"

definition report_rows :: "database \<Rightarrow> jsstring list \<Rightarrow> ReportRow list" where
  "report_rows db isins =
     (if length isins > 0 then nullish (data (reports_table db 6 isins)) [] else [])"

subsection \<open>Notions of the specification\<close>

text \<open>The last row of a lookup result that carries a given identifier.\<close>

definition last_for :: "('r \<Rightarrow> jsstring) \<Rightarrow> jsstring \<Rightarrow> 'r list \<Rightarrow> 'r option" where
  "last_for key k rows = find (\<lambda>r. key r = k) (rev rows)"

text \<open>
  The ticker line in the words of the specification: the non-empty values among the
  trimmed ticker, the identifier and the country, joined with the separator; the bare
  identifier when the joined string is empty.
\<close>

definition ticker_parts_spec :: "CalendarRow \<Rightarrow> jsstring list" where
  "ticker_parts_spec row =
     filter (\<lambda>s. s \<noteq> [])
       ((case company row of
           None \<Rightarrow> []
         | Some c \<Rightarrow> (case CompanyRow.ticker c of None \<Rightarrow> [] | Some t \<Rightarrow> [trim t]))
        @ [EarningsRow.isin row]
        @ (case company row of
             None \<Rightarrow> []
           | Some c \<Rightarrow> (case CompanyRow.country c of None \<Rightarrow> [] | Some k \<Rightarrow> [k])))"

fun joined_with :: "jsstring \<Rightarrow> jsstring list \<Rightarrow> jsstring" where
  "joined_with sep [] = []"
| "joined_with sep [s] = s"
| "joined_with sep (s # t # ts) = s @ sep @ joined_with sep (t # ts)"

definition ticker_line_spec :: "CalendarRow \<Rightarrow> jsstring" where
  "ticker_line_spec row =
     (let joined = joined_with bullet (ticker_parts_spec row)
      in if joined = [] then EarningsRow.isin row else joined)"

subsection \<open>Example data\<close>

definition today :: jsstring where
  "today = ascii ''2026-01-05''"

definition isinA :: jsstring where
  "isinA = ascii ''A''"

definition isinB :: jsstring where
  "isinB = ascii ''B''"

definition event :: "int \<Rightarrow> jsstring \<Rightarrow> string \<Rightarrow> EarningsRow" where
  "event n i d = \<lparr>id' = n, EarningsRow.isin = i, date = ascii d, source = None,
     created_at = ascii ''2026-01-01T00:00:00Z''\<rparr>"

definition profile :: "jsstring \<Rightarrow> string option \<Rightarrow> string option \<Rightarrow> CompanyRow" where
  "profile i f n = \<lparr>CompanyRow.isin = i, friendly_name = map_option ascii f, name = map_option ascii n,
     gics_sector = None, gics_industry = None, market_cap_millions_usd = Some 0x4097700000000000,
     country = Some (ascii ''US''), ticker = Some (ascii '' AAPL '')\<rparr>"

definition preview :: "jsstring \<Rightarrow> string option \<Rightarrow> ReportRow" where
  "preview i u = \<lparr>ReportRow.isin = i, storage_url = map_option ascii u, generated_at = None\<rparr>"

text \<open>
  A database over three tables that answers every query: the first rows of the calendar
  up to the limit, and the company and report rows whose identifier is in the list.
\<close>

definition tables :: "EarningsRow list \<Rightarrow> CompanyRow list \<Rightarrow> ReportRow list \<Rightarrow> database" where
  "tables es cs rs =
     \<lparr>earnings_calendar = (\<lambda>t n. Success (Some (take n es))),
      company_table = (\<lambda>l. Success (Some (filter (\<lambda>c. CompanyRow.isin c \<in> set l) cs))),
      reports_table = (\<lambda>k l. Success (Some (filter (\<lambda>r. ReportRow.isin r \<in> set l) rs)))\<rparr>"

definition timeout :: PostgrestError where
  "timeout = PostgrestError (ascii ''timeout'')"

definition events_AB :: "EarningsRow list" where
  "events_AB = [event 1 isinA ''2026-01-05'', event 2 isinB ''2026-01-06'']"

definition apple :: CompanyRow where
  "apple = profile isinA (Some ''Apple'') (Some ''Apple Inc.'')"

definition previewA :: ReportRow where
  "previewA = preview isinA (Some ''https://reports/a.pdf'')"

text \<open>The events A and B with a profile and a report for A only; one query fails.\<close>

definition db_company_down :: database where
  "db_company_down = (tables events_AB [apple] [previewA])
     \<lparr>company_table := \<lambda>l. Failure timeout\<rparr>"

definition db_reports_down :: database where
  "db_reports_down = (tables events_AB [apple] [previewA])
     \<lparr>reports_table := \<lambda>k l. Failure timeout\<rparr>"

definition db_primary_down :: database where
  "db_primary_down = (tables events_AB [apple] [previewA])
     \<lparr>earnings_calendar := \<lambda>t n. Failure timeout\<rparr>"

text \<open>No upcoming event.\<close>

definition db_no_events :: database where
  "db_no_events = tables [] [apple] [previewA]"

text \<open>
  Two events without identifier, over lookups that would answer with a profile and a
  report of the empty identifier whatever they are asked.
\<close>

definition db_blank :: database where
  "db_blank = (tables [event 1 [] ''2026-01-05'', event 2 [] ''2026-01-06''] [] [])
     \<lparr>company_table := \<lambda>l. Success (Some [profile [] (Some ''Nobody'') None]),
      reports_table := \<lambda>k l. Success (Some [preview [] (Some ''https://reports/none.pdf'')])\<rparr>"

text \<open>
  Two events of A around one of B; two profiles of A; two reports of A, the later one
  without storage URL; a report of B with an empty storage URL.
\<close>

definition db_shared :: database where
  "db_shared = tables
     [event 1 isinA ''2026-01-05'', event 2 isinB ''2026-01-06'', event 3 isinA ''2026-01-07'']
     [profile isinA (Some ''Old'') None, apple]
     [previewA, preview isinA None, preview isinB (Some [])]"

text \<open>Rows to display: with a friendly name, with a formal name only, without profile.\<close>

definition friendly_row :: CalendarRow where
  "friendly_row = EarningsRow.extend (event 1 isinA ''2026-01-05'') (CalendarRow.fields (Some apple) None)"

definition formal_row :: CalendarRow where
  "formal_row = EarningsRow.extend (event 1 isinA ''2026-01-05'')
     (CalendarRow.fields (Some (profile isinA (Some []) (Some ''Apple Inc.''))) None)"

definition bare_row :: CalendarRow where
  "bare_row = EarningsRow.extend (event 1 isinA ''2026-01-05'') (CalendarRow.fields None None)"

section \<open>Properties\<close>

subsection \<open>Unfolding the examples\<close>

lemmas example_defs =
  today_def isinA_def isinB_def event_def profile_def preview_def tables_def timeout_def
  events_AB_def apple_def previewA_def ascii_def

lemmas load_defs =
  loadUpcomingEarnings_def primary_rows_def collected_isins_def array_from_set_def
  companies_map_def reports_map_def attach_def nullish_def truthy_def Let_def
  EarningsRow.extend_def EarningsRow.truncate_def CalendarRow.fields_def

lemmas row_defs = EarningsRow.extend_def EarningsRow.truncate_def CalendarRow.fields_def

subsection \<open>Keyed maps and the identifier list\<close>

text \<open>
  A map built by \<open>reduce\<close> with \<open>map.set\<close> answers a key with the last row of the list that
  carries it.
\<close>

lemma foldl_set_lookup:
  "foldl (\<lambda>m c. m(key c \<mapsto> c)) m0 xs k =
     (case find (\<lambda>c. key c = k) (rev xs) of None \<Rightarrow> m0 k | Some c \<Rightarrow> Some c)"
  by (induction xs rule: rev_induct) auto

lemma companies_map_last: "companies_map rows k = last_for CompanyRow.isin k rows"
  by (simp add: companies_map_def last_for_def foldl_set_lookup split: option.splits)

lemma reports_map_last:
  "reports_map rows k = last_for ReportRow.isin k (filter (\<lambda>r. truthy (storage_url r)) rows)"
  by (simp add: reports_map_def last_for_def foldl_set_lookup split: option.splits)

lemma last_for_Some: "last_for key k rows = Some r \<Longrightarrow> r \<in> set rows \<and> key r = k"
  by (induction rows rule: rev_induct) (auto simp: last_for_def split: if_splits)

text \<open>The identifier list has the elements of its argument, each once.\<close>

lemma array_from_set_acc:
  "set (foldl (\<lambda>s x. if x \<in> set s then s else s @ [x]) acc xs) = set acc \<union> set xs"
  by (induction xs arbitrary: acc) auto

lemma array_from_set_distinct_acc:
  "distinct acc \<Longrightarrow> distinct (foldl (\<lambda>s x. if x \<in> set s then s else s @ [x]) acc xs)"
  by (induction xs arbitrary: acc) auto

lemma set_collected_isins:
  "set (collected_isins rows) = {i \<in> EarningsRow.isin ` set rows. i \<noteq> []}"
  by (auto simp: collected_isins_def array_from_set_def array_from_set_acc truthy_def)

lemma distinct_collected_isins: "distinct (collected_isins rows)"
  by (simp add: collected_isins_def array_from_set_def array_from_set_distinct_acc)

subsection \<open>The merge and the effects\<close>

lemma attach_truncate: "EarningsRow.truncate (attach C R row) = row"
  by (simp add: attach_def EarningsRow.extend_def EarningsRow.truncate_def)

lemma attach_company: "company (attach C R row) = C (EarningsRow.isin row)"
  by (simp add: attach_def EarningsRow.extend_def CalendarRow.fields_def)

lemma attach_report: "report (attach C R row) = R (EarningsRow.isin row)"
  by (simp add: attach_def EarningsRow.extend_def CalendarRow.fields_def)

lemma attach_isin: "EarningsRow.isin (attach C R row) = EarningsRow.isin row"
  by (simp add: attach_def EarningsRow.extend_def)

text \<open>
  The rows and the effects of a page load, read off the three answers of the database.
\<close>

lemma load_rows:
  "fst (loadUpcomingEarnings db t) =
     map (attach (companies_map (company_rows db (collected_isins (primary_rows db t))))
                 (reports_map (report_rows db (collected_isins (primary_rows db t)))))
       (primary_rows db t)"
  by (cases "earnings_calendar db t 500")
     (auto simp: loadUpcomingEarnings_def primary_rows_def company_rows_def report_rows_def
        nullish_def Let_def split: option.splits prod.splits)

lemma load_effects:
  "snd (loadUpcomingEarnings db t) =
     SelectEarnings t 500 #
     (case earnings_calendar db t 500 of
        Failure e \<Rightarrow> [ConsoleError (ascii ''Failed to load earnings calendar'') (message e)]
      | Success d \<Rightarrow>
          (let isins = collected_isins (primary_rows db t) in
           if primary_rows db t = [] \<or> isins = [] then []
           else [SelectCompany isins, SelectReports 6 isins] @
             (case company_table db isins of
                Failure e \<Rightarrow> [ConsoleError (ascii ''Failed to load company metadata'') (message e)]
              | Success d \<Rightarrow> []) @
             (case reports_table db 6 isins of
                Failure e \<Rightarrow> [ConsoleError (ascii ''Failed to load report metadata'') (message e)]
              | Success d \<Rightarrow> [])))"
  by (cases "earnings_calendar db t 500")
     (auto simp: loadUpcomingEarnings_def primary_rows_def
        nullish_def Let_def split: option.splits prod.splits response.splits)

text \<open>The ticker line: the parts that pass the filter are the parts of the specification.\<close>

lemma join_Some: "join (map Some xs) sep = joined_with sep xs"
  by (induction sep xs rule: joined_with.induct) (simp_all add: to_str_def)

lemma ticker_parts:
  "filter (\<lambda>v. truthy v \<and> v \<noteq> Some [])
     [map_option trim (Option.bind (company row) CompanyRow.ticker),
      Some (EarningsRow.isin row),
      Option.bind (company row) CompanyRow.country] = map Some (ticker_parts_spec row)"
  by (auto simp: ticker_parts_spec_def truthy_def split: option.splits)

subsection \<open>The example page loads\<close>

lemma run_company_down:
  "loadUpcomingEarnings db_company_down today =
     ([EarningsRow.extend (event 1 isinA ''2026-01-05'') (CalendarRow.fields None (Some previewA)),
       EarningsRow.extend (event 2 isinB ''2026-01-06'') (CalendarRow.fields None None)],
      [SelectEarnings today 500, SelectCompany [isinA, isinB], SelectReports 6 [isinA, isinB],
       ConsoleError (ascii ''Failed to load company metadata'') (ascii ''timeout'')])"
  by (simp add: db_company_down_def load_defs example_defs)

lemma run_reports_down:
  "loadUpcomingEarnings db_reports_down today =
     ([EarningsRow.extend (event 1 isinA ''2026-01-05'') (CalendarRow.fields (Some apple) None),
       EarningsRow.extend (event 2 isinB ''2026-01-06'') (CalendarRow.fields None None)],
      [SelectEarnings today 500, SelectCompany [isinA, isinB], SelectReports 6 [isinA, isinB],
       ConsoleError (ascii ''Failed to load report metadata'') (ascii ''timeout'')])"
  by (simp add: db_reports_down_def load_defs example_defs)

lemma run_primary_down:
  "loadUpcomingEarnings db_primary_down today =
     ([], [SelectEarnings today 500,
           ConsoleError (ascii ''Failed to load earnings calendar'') (ascii ''timeout'')])"
  by (simp add: db_primary_down_def load_defs example_defs)

lemma run_no_events:
  "loadUpcomingEarnings db_no_events today = ([], [SelectEarnings today 500])"
  by (simp add: db_no_events_def load_defs example_defs)

lemma run_blank:
  "loadUpcomingEarnings db_blank today =
     ([EarningsRow.extend (event 1 [] ''2026-01-05'') (CalendarRow.fields None None),
       EarningsRow.extend (event 2 [] ''2026-01-06'') (CalendarRow.fields None None)],
      [SelectEarnings today 500])"
  by (simp add: db_blank_def load_defs example_defs)

lemma run_shared:
  "loadUpcomingEarnings db_shared today =
     ([EarningsRow.extend (event 1 isinA ''2026-01-05'') (CalendarRow.fields (Some apple) (Some previewA)),
       EarningsRow.extend (event 2 isinB ''2026-01-06'') (CalendarRow.fields None None),
       EarningsRow.extend (event 3 isinA ''2026-01-07'') (CalendarRow.fields (Some apple) (Some previewA))],
      [SelectEarnings today 500, SelectCompany [isinA, isinB], SelectReports 6 [isinA, isinB]])"
  by (simp add: db_shared_def load_defs example_defs)

section \<open>The claims\<close>

text \<open>
  C1. The page load returns one record for each row of the primary query, in the order of
  the query: the output has as many records as the query has rows, the records without
  their company and report are the rows of the query, and the dates follow in the same
  order. This holds for every answer of the company and report lookups.
\<close>

theorem left_join_one_record_per_event:
  "length (fst (loadUpcomingEarnings db t)) = length (primary_rows db t) \<and>
   map EarningsRow.truncate (fst (loadUpcomingEarnings db t)) = primary_rows db t \<and>
   map date (fst (loadUpcomingEarnings db t)) = map date (primary_rows db t)"
proof -
  let ?out = "fst (loadUpcomingEarnings db t)"
  have trunc: "map EarningsRow.truncate ?out = primary_rows db t"
    by (simp add: load_rows attach_truncate o_def)
  have len: "length ?out = length (primary_rows db t)"
    by (simp add: load_rows)
  have "map date ?out = map date (map EarningsRow.truncate ?out)"
    by (simp add: EarningsRow.truncate_def o_def)
  with trunc len show ?thesis by simp
qed

text \<open>C1 on the events A and B, with the company lookup failing.\<close>

theorem left_join_witness:
  "primary_rows db_company_down today = events_AB \<and>
   length (fst (loadUpcomingEarnings db_company_down today)) = 2 \<and>
   map EarningsRow.truncate (fst (loadUpcomingEarnings db_company_down today)) = events_AB \<and>
   map date (fst (loadUpcomingEarnings db_company_down today))
     = [ascii ''2026-01-05'', ascii ''2026-01-06'']"
proof -
  have rows: "primary_rows db_company_down today = events_AB"
    by (simp add: db_company_down_def primary_rows_def nullish_def tables_def events_AB_def)
  have dates: "length events_AB = 2"
    "map date events_AB = [ascii ''2026-01-05'', ascii ''2026-01-06'']"
    by (simp_all add: events_AB_def event_def)
  show ?thesis
    using left_join_one_record_per_event[of db_company_down today] rows dates
    by simp
qed

text \<open>
  C2. When the primary query fails or has no rows, the page load returns no record, and it
  issues neither dependent lookup: its only effects are the primary query and, on failure,
  the logged message.
\<close>

theorem primary_failure_or_no_rows_short_circuits:
  assumes "(\<exists>e. earnings_calendar db t 500 = Failure e) \<or> primary_rows db t = []"
  shows "fst (loadUpcomingEarnings db t) = [] \<and>
         filter is_dependent_lookup (snd (loadUpcomingEarnings db t)) = [] \<and>
         snd (loadUpcomingEarnings db t) =
           SelectEarnings t 500 #
           (case error (earnings_calendar db t 500) of
              None \<Rightarrow> []
            | Some e \<Rightarrow> [ConsoleError (ascii ''Failed to load earnings calendar'') (message e)])"
proof -
  from assms have empty: "primary_rows db t = []"
    by (auto simp: primary_rows_def nullish_def)
  have fx: "snd (loadUpcomingEarnings db t) =
      SelectEarnings t 500 #
      (case error (earnings_calendar db t 500) of
         None \<Rightarrow> []
       | Some e \<Rightarrow> [ConsoleError (ascii ''Failed to load earnings calendar'') (message e)])"
    by (cases "earnings_calendar db t 500") (simp_all add: load_effects empty)
  have "filter is_dependent_lookup (snd (loadUpcomingEarnings db t)) = []"
    unfolding fx by (cases "earnings_calendar db t 500") simp_all
  with fx empty show ?thesis by (simp add: load_rows)
qed

text \<open>C2 on a failing primary query and on a calendar without events.\<close>

theorem primary_failure_or_no_rows_witness:
  "earnings_calendar db_primary_down today 500 = Failure timeout \<and>
   fst (loadUpcomingEarnings db_primary_down today) = [] \<and>
   snd (loadUpcomingEarnings db_primary_down today) =
     [SelectEarnings today 500,
      ConsoleError (ascii ''Failed to load earnings calendar'') (message timeout)] \<and>
   primary_rows db_no_events today = [] \<and>
   fst (loadUpcomingEarnings db_no_events today) = [] \<and>
   snd (loadUpcomingEarnings db_no_events today) = [SelectEarnings today 500]"
proof -
  have failed: "earnings_calendar db_primary_down today 500 = Failure timeout"
    by (simp add: db_primary_down_def)
  have none: "primary_rows db_no_events today = []"
    by (simp add: db_no_events_def primary_rows_def nullish_def tables_def)
  have answered: "error (earnings_calendar db_no_events today 500) = None"
    by (simp add: db_no_events_def tables_def)
  from failed have h1: "(\<exists>e. earnings_calendar db_primary_down today 500 = Failure e) \<or>
      primary_rows db_primary_down today = []"
    by simp
  from none have h2: "(\<exists>e. earnings_calendar db_no_events today 500 = Failure e) \<or>
      primary_rows db_no_events today = []"
    by simp
  show ?thesis
    using primary_failure_or_no_rows_short_circuits[OF h1]
      primary_failure_or_no_rows_short_circuits[OF h2] failed none answered
    by simp
qed

text \<open>
  C3. The page load has no failing outcome: it always returns its rows. When the company
  lookup fails, the failure is logged, every event is in the output, no record has a
  company, and the reports are attached as the report lookup answers; likewise when the
  report lookup fails, with company and report exchanged.
\<close>

theorem dependent_failure_degrades:
  assumes "primary_rows db t \<noteq> []"
    and "collected_isins (primary_rows db t) = isins"
    and "isins \<noteq> []"
  shows "(company_table db isins = Failure e \<longrightarrow>
            ConsoleError (ascii ''Failed to load company metadata'') (message e)
              \<in> set (snd (loadUpcomingEarnings db t)) \<and>
            map EarningsRow.truncate (fst (loadUpcomingEarnings db t)) = primary_rows db t \<and>
            (\<forall>r \<in> set (fst (loadUpcomingEarnings db t)).
               company r = None \<and>
               report r = reports_map (nullish (data (reports_table db 6 isins)) [])
                            (EarningsRow.isin r))) \<and>
         (reports_table db 6 isins = Failure e \<longrightarrow>
            ConsoleError (ascii ''Failed to load report metadata'') (message e)
              \<in> set (snd (loadUpcomingEarnings db t)) \<and>
            map EarningsRow.truncate (fst (loadUpcomingEarnings db t)) = primary_rows db t \<and>
            (\<forall>r \<in> set (fst (loadUpcomingEarnings db t)).
               report r = None \<and>
               company r = companies_map (nullish (data (company_table db isins)) [])
                             (EarningsRow.isin r)))"
proof -
  have success: "\<exists>d. earnings_calendar db t 500 = Success d"
    using assms(1) by (cases "earnings_calendar db t 500") (simp_all add: primary_rows_def nullish_def)
  have trunc: "map EarningsRow.truncate (fst (loadUpcomingEarnings db t)) = primary_rows db t"
    by (simp add: load_rows attach_truncate o_def)
  have crows: "company_rows db isins = nullish (data (company_table db isins)) []"
    using assms(3) by (simp add: company_rows_def)
  have rrows: "report_rows db isins = nullish (data (reports_table db 6 isins)) []"
    using assms(3) by (simp add: report_rows_def)
  have sel: "\<forall>r \<in> set (fst (loadUpcomingEarnings db t)).
      company r = companies_map (nullish (data (company_table db isins)) []) (EarningsRow.isin r) \<and>
      report r = reports_map (nullish (data (reports_table db 6 isins)) []) (EarningsRow.isin r)"
    by (auto simp: load_rows assms(2) crows rrows attach_company attach_report attach_isin)
  have company_case: "ConsoleError (ascii ''Failed to load company metadata'') (message e)
        \<in> set (snd (loadUpcomingEarnings db t))"
    if "company_table db isins = Failure e"
    using success that assms by (auto simp: load_effects Let_def)
  have report_case: "ConsoleError (ascii ''Failed to load report metadata'') (message e)
        \<in> set (snd (loadUpcomingEarnings db t))"
    if "reports_table db 6 isins = Failure e"
    using success that assms by (auto simp: load_effects Let_def)
  have no_company: "companies_map (nullish (data (company_table db isins)) []) k = None"
    if "company_table db isins = Failure e" for k
    using that by (simp add: nullish_def companies_map_def)
  have no_report: "reports_map (nullish (data (reports_table db 6 isins)) []) k = None"
    if "reports_table db 6 isins = Failure e" for k
    using that by (simp add: nullish_def reports_map_def)
  show ?thesis
    using trunc sel company_case report_case no_company no_report by simp
qed

text \<open>
  C3 on the scenario of the specification: events A and B, the company lookup fails and
  the report lookup has a match for A only; and on the same events with the report lookup
  failing.
\<close>

theorem dependent_failure_witness:
  "primary_rows db_company_down today \<noteq> [] \<and>
   collected_isins (primary_rows db_company_down today) = [isinA, isinB] \<and>
   company_table db_company_down [isinA, isinB] = Failure timeout \<and>
   ConsoleError (ascii ''Failed to load company metadata'') (message timeout)
     \<in> set (snd (loadUpcomingEarnings db_company_down today)) \<and>
   map EarningsRow.truncate (fst (loadUpcomingEarnings db_company_down today)) = events_AB \<and>
   map company (fst (loadUpcomingEarnings db_company_down today)) = [None, None] \<and>
   map report (fst (loadUpcomingEarnings db_company_down today)) = [Some previewA, None] \<and>
   primary_rows db_reports_down today \<noteq> [] \<and>
   collected_isins (primary_rows db_reports_down today) = [isinA, isinB] \<and>
   reports_table db_reports_down 6 [isinA, isinB] = Failure timeout \<and>
   ConsoleError (ascii ''Failed to load report metadata'') (message timeout)
     \<in> set (snd (loadUpcomingEarnings db_reports_down today)) \<and>
   map EarningsRow.truncate (fst (loadUpcomingEarnings db_reports_down today)) = events_AB \<and>
   map company (fst (loadUpcomingEarnings db_reports_down today)) = [Some apple, None] \<and>
   map report (fst (loadUpcomingEarnings db_reports_down today)) = [None, None]"
proof -
  have c1: "primary_rows db_company_down today \<noteq> []"
    by (simp add: db_company_down_def primary_rows_def nullish_def tables_def events_AB_def)
  have c2: "collected_isins (primary_rows db_company_down today) = [isinA, isinB]"
    by (simp add: db_company_down_def load_defs example_defs)
  have c3: "company_table db_company_down [isinA, isinB] = Failure timeout"
    by (simp add: db_company_down_def)
  have r1: "primary_rows db_reports_down today \<noteq> []"
    by (simp add: db_reports_down_def primary_rows_def nullish_def tables_def events_AB_def)
  have r2: "collected_isins (primary_rows db_reports_down today) = [isinA, isinB]"
    by (simp add: db_reports_down_def load_defs example_defs)
  have r3: "reports_table db_reports_down 6 [isinA, isinB] = Failure timeout"
    by (simp add: db_reports_down_def)
  have ne: "[isinA, isinB] \<noteq> []"
    by simp
  have pc: "primary_rows db_company_down today = events_AB"
    by (simp add: db_company_down_def primary_rows_def nullish_def tables_def events_AB_def)
  have pr: "primary_rows db_reports_down today = events_AB"
    by (simp add: db_reports_down_def primary_rows_def nullish_def tables_def events_AB_def)
  have outs:
    "map company (fst (loadUpcomingEarnings db_company_down today)) = [None, None]"
    "map report (fst (loadUpcomingEarnings db_company_down today)) = [Some previewA, None]"
    "map company (fst (loadUpcomingEarnings db_reports_down today)) = [Some apple, None]"
    "map report (fst (loadUpcomingEarnings db_reports_down today)) = [None, None]"
    by (simp_all add: run_company_down run_reports_down row_defs)
  show ?thesis
    using dependent_failure_degrades[OF c1 c2 ne, of timeout]
      dependent_failure_degrades[OF r1 r2 ne, of timeout] c1 c2 c3 r1 r2 r3 pc pr outs
    by simp
qed

text \<open>
  C4. A dependent lookup is issued with the distinct non-empty identifiers of the events;
  both are issued when there is such an identifier; when there is none, no dependent
  lookup is issued and no record has a company or a report.
\<close>

theorem identifier_set_of_dependent_lookups:
  "(\<forall>l. SelectCompany l \<in> set (snd (loadUpcomingEarnings db t)) \<or>
        (\<exists>k. SelectReports k l \<in> set (snd (loadUpcomingEarnings db t))) \<longrightarrow>
        distinct l \<and> set l = {i \<in> EarningsRow.isin ` set (primary_rows db t). i \<noteq> []}) \<and>
   ({i \<in> EarningsRow.isin ` set (primary_rows db t). i \<noteq> []} \<noteq> {} \<longrightarrow>
      SelectCompany (collected_isins (primary_rows db t)) \<in> set (snd (loadUpcomingEarnings db t)) \<and>
      SelectReports 6 (collected_isins (primary_rows db t))
        \<in> set (snd (loadUpcomingEarnings db t))) \<and>
   ({i \<in> EarningsRow.isin ` set (primary_rows db t). i \<noteq> []} = {} \<longrightarrow>
      filter is_dependent_lookup (snd (loadUpcomingEarnings db t)) = [] \<and>
      (\<forall>r \<in> set (fst (loadUpcomingEarnings db t)). company r = None \<and> report r = None))"
proof -
  let ?rows = "primary_rows db t"
  let ?isins = "collected_isins ?rows"
  let ?fx = "snd (loadUpcomingEarnings db t)"
  let ?ids = "{i \<in> EarningsRow.isin ` set ?rows. i \<noteq> []}"
  have issued: "l = ?isins"
    if "SelectCompany l \<in> set ?fx \<or> (\<exists>k. SelectReports k l \<in> set ?fx)" for l
    using that
    by (auto simp: load_effects Let_def split: response.splits if_splits)
  have part1: "distinct l \<and> set l = ?ids"
    if "SelectCompany l \<in> set ?fx \<or> (\<exists>k. SelectReports k l \<in> set ?fx)" for l
    using issued[OF that] by (simp only: set_collected_isins distinct_collected_isins simp_thms)
  have nonempty: "?rows \<noteq> [] \<and> ?isins \<noteq> []" if "?ids \<noteq> {}"
    using that set_collected_isins[of ?rows] by auto
  have success: "\<exists>d. earnings_calendar db t 500 = Success d" if "?rows \<noteq> []"
    using that by (cases "earnings_calendar db t 500") (simp_all add: primary_rows_def nullish_def)
  have part2: "SelectCompany ?isins \<in> set ?fx \<and> SelectReports 6 ?isins \<in> set ?fx" if "?ids \<noteq> {}"
    using nonempty[OF that] success by (auto simp: load_effects Let_def)
  have empty: "?isins = []" if "?ids = {}"
  proof -
    have "set ?isins = {}"
      using that by (simp only: set_collected_isins)
    then show ?thesis by simp
  qed
  have part3a: "filter is_dependent_lookup ?fx = []" if "?ids = {}"
    using empty[OF that] by (simp add: load_effects Let_def split: response.splits)
  have part3b: "\<forall>r \<in> set (fst (loadUpcomingEarnings db t)). company r = None \<and> report r = None"
    if "?ids = {}"
    using empty[OF that]
    by (auto simp: load_rows company_rows_def report_rows_def companies_map_def reports_map_def
          attach_company attach_report)
  show ?thesis
    using part1 part2 part3a part3b by blast
qed

text \<open>
  C4 on events that share the identifier A, and on events without identifier over lookups
  that would answer with a profile and a report.
\<close>

theorem identifier_set_witness:
  "SelectCompany [isinA, isinB] \<in> set (snd (loadUpcomingEarnings db_shared today)) \<and>
   SelectReports 6 [isinA, isinB] \<in> set (snd (loadUpcomingEarnings db_shared today)) \<and>
   map EarningsRow.isin (primary_rows db_shared today) = [isinA, isinB, isinA] \<and>
   distinct [isinA, isinB] \<and>
   set [isinA, isinB] = {i \<in> EarningsRow.isin ` set (primary_rows db_shared today). i \<noteq> []} \<and>
   {i \<in> EarningsRow.isin ` set (primary_rows db_blank today). i \<noteq> []} = {} \<and>
   filter is_dependent_lookup (snd (loadUpcomingEarnings db_blank today)) = [] \<and>
   map company (fst (loadUpcomingEarnings db_blank today)) = [None, None] \<and>
   map report (fst (loadUpcomingEarnings db_blank today)) = [None, None]"
proof -
  have issued: "SelectCompany [isinA, isinB] \<in> set (snd (loadUpcomingEarnings db_shared today))"
    "SelectReports 6 [isinA, isinB] \<in> set (snd (loadUpcomingEarnings db_shared today))"
    by (simp_all add: run_shared)
  have rows: "map EarningsRow.isin (primary_rows db_shared today) = [isinA, isinB, isinA]"
    by (simp add: db_shared_def primary_rows_def nullish_def tables_def event_def)
  have blank: "{i \<in> EarningsRow.isin ` set (primary_rows db_blank today). i \<noteq> []} = {}"
    by (auto simp: db_blank_def primary_rows_def nullish_def tables_def event_def)
  have outs: "map company (fst (loadUpcomingEarnings db_blank today)) = [None, None]"
    "map report (fst (loadUpcomingEarnings db_blank today)) = [None, None]"
    by (simp_all add: run_blank row_defs)
  have "distinct [isinA, isinB] \<and>
      set [isinA, isinB] = {i \<in> EarningsRow.isin ` set (primary_rows db_shared today). i \<noteq> []}"
    using identifier_set_of_dependent_lookups[of db_shared today] issued(1) by blast
  moreover have "filter is_dependent_lookup (snd (loadUpcomingEarnings db_blank today)) = []"
    using identifier_set_of_dependent_lookups[of db_blank today] blank by blast
  ultimately show ?thesis
    using issued rows blank outs by simp
qed

text \<open>
  C5. The company display name is the friendly name of the profile when that is a
  non-empty string, otherwise the formal name when that is a non-empty string, otherwise
  the identifier of the event. A non-empty friendly name wins over the formal name.
\<close>

theorem formatCompany_prefers_friendly_name:
  "(company row = Some c \<and> friendly_name c = Some f \<and> f \<noteq> [] \<longrightarrow> formatCompany row = f) \<and>
   (company row = Some c \<and> \<not> truthy (friendly_name c) \<and> name c = Some n \<and> n \<noteq> [] \<longrightarrow>
      formatCompany row = n) \<and>
   (company row = None \<or>
    (company row = Some c \<and> \<not> truthy (friendly_name c) \<and> \<not> truthy (name c)) \<longrightarrow>
      formatCompany row = EarningsRow.isin row)"
  by (auto simp: formatCompany_def js_or_def truthy_def Let_def split: option.splits)

text \<open>C5 on a row with both names, a row with an empty friendly name and a row without profile.\<close>

theorem formatCompany_witness:
  "company friendly_row = Some apple \<and> friendly_name apple = Some (ascii ''Apple'') \<and>
   ascii ''Apple'' \<noteq> [] \<and> name apple = Some (ascii ''Apple Inc.'') \<and>
   formatCompany friendly_row = ascii ''Apple'' \<and>
   company formal_row = Some (profile isinA (Some []) (Some ''Apple Inc.'')) \<and>
   \<not> truthy (friendly_name (profile isinA (Some []) (Some ''Apple Inc.''))) \<and>
   name (profile isinA (Some []) (Some ''Apple Inc.'')) = Some (ascii ''Apple Inc.'') \<and>
   formatCompany formal_row = ascii ''Apple Inc.'' \<and>
   company bare_row = None \<and>
   formatCompany bare_row = isinA"
proof -
  have f: "company friendly_row = Some apple \<and> friendly_name apple = Some (ascii ''Apple'') \<and>
      ascii ''Apple'' \<noteq> []"
    by (simp add: friendly_row_def row_defs apple_def profile_def ascii_def)
  have n: "company formal_row = Some (profile isinA (Some []) (Some ''Apple Inc.'')) \<and>
      \<not> truthy (friendly_name (profile isinA (Some []) (Some ''Apple Inc.''))) \<and>
      name (profile isinA (Some []) (Some ''Apple Inc.'')) = Some (ascii ''Apple Inc.'') \<and>
      ascii ''Apple Inc.'' \<noteq> []"
    by (simp add: formal_row_def row_defs profile_def ascii_def truthy_def)
  have b: "company bare_row = None"
    by (simp add: bare_row_def row_defs)
  have i: "EarningsRow.isin bare_row = isinA" "name apple = Some (ascii ''Apple Inc.'')"
    by (simp_all add: bare_row_def row_defs event_def apple_def profile_def)
  show ?thesis
    using formatCompany_prefers_friendly_name[of friendly_row apple "ascii ''Apple''"]
      formatCompany_prefers_friendly_name[of formal_row
        "profile isinA (Some []) (Some ''Apple Inc.'')" _ "ascii ''Apple Inc.''"]
      formatCompany_prefers_friendly_name[of bare_row] f n b i
    by simp
qed

text \<open>
  C6. The ticker line joins the non-empty values among the trimmed ticker, the identifier
  and the country with the separator, leaving out the empty and the missing ones, and is
  the bare identifier when the joined string is empty.
\<close>

theorem ticker_line_joins_present_parts:
  "formatTicker row = joined_with bullet (ticker_parts_spec row) \<and>
   tickerLine row = ticker_line_spec row"
proof -
  have "formatTicker row = joined_with bullet (ticker_parts_spec row)"
    unfolding formatTicker_def Let_def ticker_parts by (rule join_Some)
  then show ?thesis
    by (simp add: tickerLine_def ticker_line_spec_def js_or_def Let_def)
qed

text \<open>C6 on a row with ticker and country, whose ticker is trimmed, and on a row without profile.\<close>

theorem ticker_line_witness:
  "ticker_parts_spec friendly_row = [ascii ''AAPL'', isinA, ascii ''US''] \<and>
   formatTicker friendly_row = ascii ''AAPL'' @ bullet @ isinA @ bullet @ ascii ''US'' \<and>
   tickerLine friendly_row = ascii ''AAPL'' @ bullet @ isinA @ bullet @ ascii ''US'' \<and>
   ticker_parts_spec bare_row = [isinA] \<and>
   formatTicker bare_row = isinA \<and>
   tickerLine bare_row = isinA"
proof -
  have parts: "ticker_parts_spec friendly_row = [ascii ''AAPL'', isinA, ascii ''US'']"
    "ticker_parts_spec bare_row = [isinA]"
    by (simp_all add: ticker_parts_spec_def trim_def is_white_space_def friendly_row_def
        bare_row_def row_defs example_defs)
  have ids: "EarningsRow.isin friendly_row = isinA" "EarningsRow.isin bare_row = isinA"
    by (simp_all add: friendly_row_def bare_row_def row_defs event_def)
  have nonempty: "isinA \<noteq> []"
    by (simp add: isinA_def ascii_def)
  show ?thesis
    using ticker_line_joins_present_parts[of friendly_row]
      ticker_line_joins_present_parts[of bare_row] parts ids nonempty
    by (simp add: ticker_line_spec_def)
qed

text \<open>
  C8. The report map holds only rows of the lookup with a non-empty storage URL, so the
  report of an output record always has a non-empty storage URL.
\<close>

theorem reports_without_url_never_attached:
  "(\<forall>k rep. reports_map rs k = Some rep \<longrightarrow>
      rep \<in> set rs \<and> (\<exists>u. storage_url rep = Some u \<and> u \<noteq> [])) \<and>
   (\<forall>r \<in> set (fst (loadUpcomingEarnings db t)). \<forall>rep. report r = Some rep \<longrightarrow>
      (\<exists>u. storage_url rep = Some u \<and> u \<noteq> []))"
proof -
  have url: "rep \<in> set rows \<and> (\<exists>u. storage_url rep = Some u \<and> u \<noteq> [])"
    if "reports_map rows k = Some rep" for rows k rep
  proof -
    from that have "rep \<in> set (filter (\<lambda>r. truthy (storage_url r)) rows)"
      by (simp only: reports_map_last) (drule last_for_Some, simp)
    then show ?thesis
      by (auto simp: truthy_def split: option.splits)
  qed
  have "\<exists>u. storage_url rep = Some u \<and> u \<noteq> []"
    if "r \<in> set (fst (loadUpcomingEarnings db t))" and "report r = Some rep" for r rep
    using that url by (auto simp: load_rows attach_report)
  with url show ?thesis by blast
qed

text \<open>
  C8 on a report lookup with a row without storage URL and a row with an empty one.
\<close>

theorem reports_without_url_witness:
  "reports_table db_shared 6 [isinA, isinB]
     = Success (Some [previewA, preview isinA None, preview isinB (Some [])]) \<and>
   storage_url (preview isinA None) = None \<and>
   storage_url (preview isinB (Some [])) = Some [] \<and>
   map report (fst (loadUpcomingEarnings db_shared today)) = [Some previewA, None, Some previewA] \<and>
   reports_map [previewA, preview isinA None, preview isinB (Some [])] isinA = Some previewA \<and>
   storage_url previewA = Some (ascii ''https://reports/a.pdf'') \<and>
   ascii ''https://reports/a.pdf'' \<noteq> []"
proof -
  have table: "reports_table db_shared 6 [isinA, isinB]
      = Success (Some [previewA, preview isinA None, preview isinB (Some [])])"
    by (simp add: db_shared_def example_defs)
  have urls: "storage_url (preview isinA None) = None"
    "storage_url (preview isinB (Some [])) = Some []"
    "storage_url previewA = Some (ascii ''https://reports/a.pdf'')"
    by (simp_all add: preview_def previewA_def ascii_def)
  have out: "map report (fst (loadUpcomingEarnings db_shared today))
      = [Some previewA, None, Some previewA]"
    by (simp add: run_shared row_defs)
  have m: "reports_map [previewA, preview isinA None, preview isinB (Some [])] isinA = Some previewA"
    by (simp add: reports_map_def truthy_def example_defs)
  have "\<exists>u. storage_url previewA = Some u \<and> u \<noteq> []"
    using reports_without_url_never_attached
      [of "[previewA, preview isinA None, preview isinB (Some [])]" db_shared today] m
    by blast
  then show ?thesis
    using table urls out m by auto
qed

text \<open>
  C9 as stated fails for reports. The report lookup answers for A with a row that has a
  storage URL and then a row that has none: the last row of the lookup result for A is
  the second one, yet both events of A carry the first.
\<close>

theorem shared_identifier_counterexample:
  "map EarningsRow.isin (fst (loadUpcomingEarnings db_shared today)) = [isinA, isinB, isinA] \<and>
   map report (fst (loadUpcomingEarnings db_shared today)) = [Some previewA, None, Some previewA] \<and>
   last_for ReportRow.isin isinA
     (nullish (data (reports_table db_shared 6 (collected_isins (primary_rows db_shared today)))) [])
     = Some (preview isinA None) \<and>
   previewA \<noteq> preview isinA None"
  by (simp add: db_shared_def load_defs example_defs last_for_def)

text \<open>
  C9, amended. Every event is in the output, and records with the same identifier carry
  the same company and the same report. The company attached is the last row of the
  company lookup with the identifier of the event; the report attached is the last row
  with that identifier among the rows of the report lookup that have a non-empty storage
  URL.
\<close>

theorem shared_identifier_last_write_wins:
  "map EarningsRow.truncate (fst (loadUpcomingEarnings db t)) = primary_rows db t \<and>
   (\<forall>r \<in> set (fst (loadUpcomingEarnings db t)). \<forall>r' \<in> set (fst (loadUpcomingEarnings db t)).
      EarningsRow.isin r = EarningsRow.isin r' \<longrightarrow>
      company r = company r' \<and> report r = report r') \<and>
   (collected_isins (primary_rows db t) \<noteq> [] \<longrightarrow>
      (\<forall>r \<in> set (fst (loadUpcomingEarnings db t)).
         company r = last_for CompanyRow.isin (EarningsRow.isin r)
           (nullish (data (company_table db (collected_isins (primary_rows db t)))) []) \<and>
         report r = last_for ReportRow.isin (EarningsRow.isin r)
           (filter (\<lambda>p. truthy (storage_url p))
              (nullish (data (reports_table db 6 (collected_isins (primary_rows db t)))) []))))"
proof -
  let ?isins = "collected_isins (primary_rows db t)"
  let ?out = "fst (loadUpcomingEarnings db t)"
  have trunc: "map EarningsRow.truncate ?out = primary_rows db t"
    by (simp add: load_rows attach_truncate o_def)
  have keyed: "company r = companies_map (company_rows db ?isins) (EarningsRow.isin r) \<and>
               report r = reports_map (report_rows db ?isins) (EarningsRow.isin r)"
    if "r \<in> set ?out" for r
    using that by (auto simp: load_rows attach_company attach_report attach_isin)
  have same: "company r = company r' \<and> report r = report r'"
    if "r \<in> set ?out" "r' \<in> set ?out" "EarningsRow.isin r = EarningsRow.isin r'" for r r'
    using keyed[OF that(1)] keyed[OF that(2)] that(3) by simp
  have last: "company r = last_for CompanyRow.isin (EarningsRow.isin r)
                 (nullish (data (company_table db ?isins)) []) \<and>
              report r = last_for ReportRow.isin (EarningsRow.isin r)
                 (filter (\<lambda>p. truthy (storage_url p))
                    (nullish (data (reports_table db 6 ?isins)) []))"
    if "?isins \<noteq> []" "r \<in> set ?out" for r
    using keyed[OF that(2)] that(1)
    by (simp add: company_rows_def report_rows_def companies_map_last reports_map_last)
  show ?thesis
    using trunc same last by blast
qed

text \<open>C9, amended, on two events of A with two profiles and two reports of A.\<close>

theorem shared_identifier_witness:
  "collected_isins (primary_rows db_shared today) = [isinA, isinB] \<and>
   map EarningsRow.truncate (fst (loadUpcomingEarnings db_shared today))
     = [event 1 isinA ''2026-01-05'', event 2 isinB ''2026-01-06'', event 3 isinA ''2026-01-07''] \<and>
   data (company_table db_shared [isinA, isinB]) = Some [profile isinA (Some ''Old'') None, apple] \<and>
   data (reports_table db_shared 6 [isinA, isinB])
     = Some [previewA, preview isinA None, preview isinB (Some [])] \<and>
   map company (fst (loadUpcomingEarnings db_shared today)) = [Some apple, None, Some apple] \<and>
   map report (fst (loadUpcomingEarnings db_shared today)) = [Some previewA, None, Some previewA]"
proof -
  have isins: "collected_isins (primary_rows db_shared today) = [isinA, isinB]"
    by (simp add: db_shared_def load_defs example_defs)
  have rows: "primary_rows db_shared today
      = [event 1 isinA ''2026-01-05'', event 2 isinB ''2026-01-06'', event 3 isinA ''2026-01-07'']"
    by (simp add: db_shared_def primary_rows_def nullish_def tables_def)
  have tables: "data (company_table db_shared [isinA, isinB])
      = Some [profile isinA (Some ''Old'') None, apple]"
    "data (reports_table db_shared 6 [isinA, isinB])
      = Some [previewA, preview isinA None, preview isinB (Some [])]"
    by (simp_all add: db_shared_def example_defs)
  have outs: "map company (fst (loadUpcomingEarnings db_shared today)) = [Some apple, None, Some apple]"
    "map report (fst (loadUpcomingEarnings db_shared today)) = [Some previewA, None, Some previewA]"
    by (simp_all add: run_shared row_defs)
  have ne: "collected_isins (primary_rows db_shared today) \<noteq> []"
    by (simp add: isins)
  show ?thesis
    using shared_identifier_last_write_wins[of db_shared today] ne isins rows tables outs
    by simp
qed

text \<open>
  C10. The merge leaves the primary fields alone: the output has the length of the
  primary rows, and the record at each position has the id, identifier, date, source and
  creation time of the row at that position; it is that row with a company and a report
  field attached.
\<close>

theorem merge_keeps_primary_fields:
  "length (fst (loadUpcomingEarnings db t)) = length (primary_rows db t) \<and>
   (\<forall>i < length (primary_rows db t).
      id' (fst (loadUpcomingEarnings db t) ! i) = id' (primary_rows db t ! i) \<and>
      EarningsRow.isin (fst (loadUpcomingEarnings db t) ! i) = EarningsRow.isin (primary_rows db t ! i) \<and>
      date (fst (loadUpcomingEarnings db t) ! i) = date (primary_rows db t ! i) \<and>
      source (fst (loadUpcomingEarnings db t) ! i) = source (primary_rows db t ! i) \<and>
      created_at (fst (loadUpcomingEarnings db t) ! i) = created_at (primary_rows db t ! i) \<and>
      fst (loadUpcomingEarnings db t) ! i =
        EarningsRow.extend (primary_rows db t ! i)
          (CalendarRow.fields (company (fst (loadUpcomingEarnings db t) ! i))
                              (report (fst (loadUpcomingEarnings db t) ! i))))"
  by (simp add: load_rows attach_def EarningsRow.extend_def CalendarRow.fields_def)

text \<open>C10 at the third of three events.\<close>

theorem merge_keeps_primary_fields_witness:
  "length (primary_rows db_shared today) = 3 \<and>
   length (fst (loadUpcomingEarnings db_shared today)) = 3 \<and>
   id' (fst (loadUpcomingEarnings db_shared today) ! 2) = 3 \<and>
   EarningsRow.isin (fst (loadUpcomingEarnings db_shared today) ! 2) = isinA \<and>
   date (fst (loadUpcomingEarnings db_shared today) ! 2) = ascii ''2026-01-07'' \<and>
   source (fst (loadUpcomingEarnings db_shared today) ! 2) = None \<and>
   created_at (fst (loadUpcomingEarnings db_shared today) ! 2) = ascii ''2026-01-01T00:00:00Z'' \<and>
   fst (loadUpcomingEarnings db_shared today) ! 2 =
     EarningsRow.extend (event 3 isinA ''2026-01-07'')
       (CalendarRow.fields (Some apple) (Some previewA))"
proof -
  have rows: "primary_rows db_shared today
      = [event 1 isinA ''2026-01-05'', event 2 isinB ''2026-01-06'', event 3 isinA ''2026-01-07'']"
    by (simp add: db_shared_def primary_rows_def nullish_def tables_def)
  have third: "(2::nat) < length (primary_rows db_shared today)"
    by (simp add: rows)
  have fields: "company (fst (loadUpcomingEarnings db_shared today) ! 2) = Some apple"
    "report (fst (loadUpcomingEarnings db_shared today) ! 2) = Some previewA"
    by (simp_all add: run_shared row_defs)
  have "length (fst (loadUpcomingEarnings db_shared today)) = length (primary_rows db_shared today)"
    using merge_keeps_primary_fields[of db_shared today] by blast
  moreover have "id' (fst (loadUpcomingEarnings db_shared today) ! 2) = id' (primary_rows db_shared today ! 2) \<and>
      EarningsRow.isin (fst (loadUpcomingEarnings db_shared today) ! 2) = EarningsRow.isin (primary_rows db_shared today ! 2) \<and>
      date (fst (loadUpcomingEarnings db_shared today) ! 2) = date (primary_rows db_shared today ! 2) \<and>
      source (fst (loadUpcomingEarnings db_shared today) ! 2) = source (primary_rows db_shared today ! 2) \<and>
      created_at (fst (loadUpcomingEarnings db_shared today) ! 2) = created_at (primary_rows db_shared today ! 2) \<and>
      fst (loadUpcomingEarnings db_shared today) ! 2 =
        EarningsRow.extend (primary_rows db_shared today ! 2)
          (CalendarRow.fields (company (fst (loadUpcomingEarnings db_shared today) ! 2))
                              (report (fst (loadUpcomingEarnings db_shared today) ! 2)))"
    using merge_keeps_primary_fields[of db_shared today] third by blast
  ultimately show ?thesis
    by (simp add: rows fields event_def row_defs)
qed

end
